theory Spec2Isabelle
  imports Main "HOL-Library.Sublist"
begin

section \<open>Library initialization (lib_init.c)\<close>

text \<open>
  The file \<^verbatim>\<open>lib_init.c\<close> holds two static tables of library descriptors and the
  function \<^verbatim>\<open>luaL_openlibs\<close> that walks them. The tables are assembled by the
  preprocessor from build switches; here the switches are the fields of a record and
  each table is a function of that record.
\<close>

subsection \<open>Build configuration\<close>

text \<open>
  One field per preprocessor symbol tested in \<^verbatim>\<open>lib_init.c\<close>. A \<^verbatim>\<open>WB_DISABLE_LIB_*\<close>
  field is \<open>True\<close> when the symbol is defined; \<open>LJ_HASFFI\<close> is \<open>True\<close> when the macro
  of \<^verbatim>\<open>lj_arch.h\<close> is non-zero.
\<close>

record build_config =
  WB_DISABLE_LIB_BASE :: bool
  WB_DISABLE_LIB_PACKAGE :: bool
  WB_DISABLE_LIB_TABLE :: bool
  WB_DISABLE_LIB_IO :: bool
  WB_DISABLE_LIB_OS :: bool
  WB_DISABLE_LIB_STRING :: bool
  WB_DISABLE_LIB_MATH :: bool
  WB_DISABLE_LIB_DEBUG :: bool
  WB_DISABLE_LIB_BIT :: bool
  WB_DISABLE_LIB_JIT :: bool
  LJ_HASFFI :: bool

subsection \<open>Descriptors\<close>

text \<open>
  The entry points are C functions defined in other files; the installer only
  passes their addresses around, so they are modelled as the values of an enumeration.
\<close>

datatype lua_CFunction =
  luaopen_base | luaopen_package | luaopen_table | luaopen_io | luaopen_os
  | luaopen_string | luaopen_math | luaopen_debug | luaopen_bit | luaopen_jit
  | luaopen_ffi

text \<open>
  A \<^verbatim>\<open>luaL_Reg\<close> is a name and a function pointer. Every table ends with the entry
  \<^verbatim>\<open>{ NULL, NULL }\<close>; a table is a list of optional descriptors in which \<open>None\<close>
  is that entry.
\<close>

record luaL_Reg =
  name :: string
  func :: lua_CFunction

text \<open>
  Modelled from the spec: the library name macros of \<^verbatim>\<open>lualib.h\<close>, which is not
  among the sources. The spec lists the modules as string, table, io, math, os, bit,
  jit, ffi, debug and package; each macro is the name of its module.
\<close>

definition LUA_LOADLIBNAME :: string where "LUA_LOADLIBNAME = ''package''"
definition LUA_TABLIBNAME :: string where "LUA_TABLIBNAME = ''table''"
definition LUA_IOLIBNAME :: string where "LUA_IOLIBNAME = ''io''"
definition LUA_OSLIBNAME :: string where "LUA_OSLIBNAME = ''os''"
definition LUA_STRLIBNAME :: string where "LUA_STRLIBNAME = ''string''"
definition LUA_MATHLIBNAME :: string where "LUA_MATHLIBNAME = ''math''"
definition LUA_DBLIBNAME :: string where "LUA_DBLIBNAME = ''debug''"
definition LUA_BITLIBNAME :: string where "LUA_BITLIBNAME = ''bit''"
definition LUA_JITLIBNAME :: string where "LUA_JITLIBNAME = ''jit''"
definition LUA_FFILIBNAME :: string where "LUA_FFILIBNAME = ''ffi''"

subsection \<open>The two tables\<close>

definition lj_lib_load :: "build_config \<Rightarrow> luaL_Reg option list" where
  "lj_lib_load cfg =
     (if WB_DISABLE_LIB_BASE cfg then []
      else [Some \<lparr>name = '''', func = luaopen_base\<rparr>]) @
     (if WB_DISABLE_LIB_PACKAGE cfg then []
      else [Some \<lparr>name = LUA_LOADLIBNAME, func = luaopen_package\<rparr>]) @
     (if WB_DISABLE_LIB_TABLE cfg then []
      else [Some \<lparr>name = LUA_TABLIBNAME, func = luaopen_table\<rparr>]) @
     (if WB_DISABLE_LIB_IO cfg then []
      else [Some \<lparr>name = LUA_IOLIBNAME, func = luaopen_io\<rparr>]) @
     (if WB_DISABLE_LIB_OS cfg then []
      else [Some \<lparr>name = LUA_OSLIBNAME, func = luaopen_os\<rparr>]) @
     (if WB_DISABLE_LIB_STRING cfg then []
      else [Some \<lparr>name = LUA_STRLIBNAME, func = luaopen_string\<rparr>]) @
     (if WB_DISABLE_LIB_MATH cfg then []
      else [Some \<lparr>name = LUA_MATHLIBNAME, func = luaopen_math\<rparr>]) @
     (if WB_DISABLE_LIB_DEBUG cfg then []
      else [Some \<lparr>name = LUA_DBLIBNAME, func = luaopen_debug\<rparr>]) @
     (if WB_DISABLE_LIB_BIT cfg then []
      else [Some \<lparr>name = LUA_BITLIBNAME, func = luaopen_bit\<rparr>]) @
     (if WB_DISABLE_LIB_JIT cfg then []
      else [Some \<lparr>name = LUA_JITLIBNAME, func = luaopen_jit\<rparr>]) @
     [None]"

definition lj_lib_preload :: "build_config \<Rightarrow> luaL_Reg option list" where
  "lj_lib_preload cfg =
     (if LJ_HASFFI cfg then [Some \<lparr>name = LUA_FFILIBNAME, func = luaopen_ffi\<rparr>]
      else []) @
     [None]"

text \<open>
  The descriptors a loop \<^verbatim>\<open>for (lib = t; lib->func; lib++)\<close> visits: those in front of
  the first \<^verbatim>\<open>{ NULL, NULL }\<close> entry.
\<close>

fun entries :: "luaL_Reg option list \<Rightarrow> luaL_Reg list" where
  "entries [] = []"
| "entries (None # libs) = []"
| "entries (Some lib # libs) = lib # entries libs"

definition EagerModuleSet :: "build_config \<Rightarrow> luaL_Reg list" where
  "EagerModuleSet cfg = entries (lj_lib_load cfg)"

definition LazyModuleSet :: "build_config \<Rightarrow> luaL_Reg list" where
  "LazyModuleSet cfg = entries (lj_lib_preload cfg)"

text \<open>
  The modules of the two tables, each with the condition under which the preprocessor
  drops its line, its name and its entry point.
\<close>

datatype lib_module =
  LIB_BASE | LIB_PACKAGE | LIB_TABLE | LIB_IO | LIB_OS | LIB_STRING | LIB_MATH
  | LIB_DEBUG | LIB_BIT | LIB_JIT | LIB_FFI

fun disabled :: "build_config \<Rightarrow> lib_module \<Rightarrow> bool" where
  "disabled cfg LIB_BASE = WB_DISABLE_LIB_BASE cfg"
| "disabled cfg LIB_PACKAGE = WB_DISABLE_LIB_PACKAGE cfg"
| "disabled cfg LIB_TABLE = WB_DISABLE_LIB_TABLE cfg"
| "disabled cfg LIB_IO = WB_DISABLE_LIB_IO cfg"
| "disabled cfg LIB_OS = WB_DISABLE_LIB_OS cfg"
| "disabled cfg LIB_STRING = WB_DISABLE_LIB_STRING cfg"
| "disabled cfg LIB_MATH = WB_DISABLE_LIB_MATH cfg"
| "disabled cfg LIB_DEBUG = WB_DISABLE_LIB_DEBUG cfg"
| "disabled cfg LIB_BIT = WB_DISABLE_LIB_BIT cfg"
| "disabled cfg LIB_JIT = WB_DISABLE_LIB_JIT cfg"
| "disabled cfg LIB_FFI = (\<not> LJ_HASFFI cfg)"

fun descriptor :: "lib_module \<Rightarrow> luaL_Reg" where
  "descriptor LIB_BASE = \<lparr>name = '''', func = luaopen_base\<rparr>"
| "descriptor LIB_PACKAGE = \<lparr>name = LUA_LOADLIBNAME, func = luaopen_package\<rparr>"
| "descriptor LIB_TABLE = \<lparr>name = LUA_TABLIBNAME, func = luaopen_table\<rparr>"
| "descriptor LIB_IO = \<lparr>name = LUA_IOLIBNAME, func = luaopen_io\<rparr>"
| "descriptor LIB_OS = \<lparr>name = LUA_OSLIBNAME, func = luaopen_os\<rparr>"
| "descriptor LIB_STRING = \<lparr>name = LUA_STRLIBNAME, func = luaopen_string\<rparr>"
| "descriptor LIB_MATH = \<lparr>name = LUA_MATHLIBNAME, func = luaopen_math\<rparr>"
| "descriptor LIB_DEBUG = \<lparr>name = LUA_DBLIBNAME, func = luaopen_debug\<rparr>"
| "descriptor LIB_BIT = \<lparr>name = LUA_BITLIBNAME, func = luaopen_bit\<rparr>"
| "descriptor LIB_JIT = \<lparr>name = LUA_JITLIBNAME, func = luaopen_jit\<rparr>"
| "descriptor LIB_FFI = \<lparr>name = LUA_FFILIBNAME, func = luaopen_ffi\<rparr>"

text \<open>The lines of \<^verbatim>\<open>lj_lib_load\<close> in the order of the file, none dropped.\<close>

definition eager_modules :: "lib_module list" where
  "eager_modules =
     [LIB_BASE, LIB_PACKAGE, LIB_TABLE, LIB_IO, LIB_OS, LIB_STRING, LIB_MATH,
      LIB_DEBUG, LIB_BIT, LIB_JIT]"

definition full_load_order :: "luaL_Reg list" where
  "full_load_order = map descriptor eager_modules"

subsection \<open>The interpreter state\<close>

text \<open>
  The interpreter state (\<^verbatim>\<open>lua.h\<close>) and the API functions that \<^verbatim>\<open>luaL_openlibs\<close> calls
  are declared and defined in files that are not among the sources. Each of the
  definitions below that stands for one of them says so.
\<close>

text \<open>
  Modelled from the spec: the values of the interpreter, as far as the installer meets
  them: nil, strings, entry points and tables. A table value is a reference into the
  store of tables, so that the table reached through the registry and the one reached
  through the stack are the same object.
\<close>

datatype TValue = TNil | TStr string | TFunc lua_CFunction | TTab nat

text \<open>
  Modelled from the spec: a table, with its fields by name and the capacity hint it was
  created with.
\<close>

record GCtab =
  node :: "string \<rightharpoonup> TValue"
  hsize :: nat

text \<open>
  Modelled from the spec: what all code running on one interpreter instance shares: the
  global namespace, the registry, the store of tables, and whether the allocator is
  exhausted, so that no further table can be created.
\<close>

record global_State =
  globals :: "string \<rightharpoonup> TValue"
  registry :: "string \<rightharpoonup> TValue"
  tabs :: "GCtab list"
  out_of_memory :: bool

text \<open>
  The API log lists, in order, the calls into entry points, the registry look-ups and
  the field stores made through the API. It is not program state: no API function
  reads it, and entry points cannot reach it.
\<close>

datatype api_event =
  EvCall lua_CFunction "TValue list" nat
  | EvFindTable string nat
  | EvSetField string TValue

text \<open>
  Modelled from the spec: the InterpreterState handle: the evaluation stack of the
  caller, the shared state, and the API log.
\<close>

record lua_State =
  stack :: "TValue list"
  glob :: global_State
  api_log :: "api_event list"

text \<open>
  Modelled from the spec: the error taxonomy of its section 7. A
  \<open>ModuleInstallFailure\<close> carries the error value the entry point raised;
  \<open>PreloadTableCreationFailure\<close> is the spec's "the registry slot cannot be created
  (e.g., out of memory)". \<open>RuntimeError\<close> stands for the errors of the API itself
  (calling a value that is not a function, indexing a value that is not a table, an
  index outside the stack).
\<close>

datatype lua_Error =
  ModuleInstallFailure TValue
  | PreloadTableCreationFailure
  | RuntimeError

text \<open>
  An error is raised by a non-local jump: the state is left as it was at that moment.
  A failing operation returns the error and that state.
\<close>

type_synonym lua_result = "(lua_Error \<times> lua_State) + lua_State"

text \<open>
  Modelled from the spec: what an entry point does when invoked is outside the
  sources. Its behaviour is a parameter: given the function, its arguments and the
  global state, it leaves a new global state and either raises an error value or
  returns its result values.
\<close>

type_synonym cfunc_sem =
  "lua_CFunction \<Rightarrow> TValue list \<Rightarrow> global_State \<Rightarrow> (TValue + TValue list) \<times> global_State"

subsection \<open>API functions\<close>

text \<open>The head of \<open>stack\<close> is the top of the stack (index \<open>-1\<close>).\<close>

text \<open>Modelled from the spec: \<^verbatim>\<open>lua_pushcfunction(L, f)\<close> pushes the C function \<open>f\<close>.\<close>

definition lua_pushcfunction :: "lua_State \<Rightarrow> lua_CFunction \<Rightarrow> lua_State" where
  "lua_pushcfunction L f = L\<lparr>stack := TFunc f # stack L\<rparr>"

text \<open>Modelled from the spec: \<^verbatim>\<open>lua_pushstring(L, s)\<close> pushes the string \<open>s\<close>.\<close>

definition lua_pushstring :: "lua_State \<Rightarrow> string \<Rightarrow> lua_State" where
  "lua_pushstring L s = L\<lparr>stack := TStr s # stack L\<rparr>"

text \<open>
  Modelled from the spec: \<^verbatim>\<open>lua_pop(L, n)\<close> removes the \<open>n\<close> topmost values. The stack
  must hold that many; the model stops with \<open>RuntimeError\<close> where it does not.
\<close>

definition lua_pop :: "lua_State \<Rightarrow> nat \<Rightarrow> lua_result" where
  "lua_pop L n =
     (if n \<le> length (stack L) then Inr (L\<lparr>stack := drop n (stack L)\<rparr>)
      else Inl (RuntimeError, L))"

text \<open>
  Modelled from the spec: the value at a negative stack index, which counts from the
  top; no value when the stack is not that high.
\<close>

definition index2adr :: "lua_State \<Rightarrow> int \<Rightarrow> TValue option" where
  "index2adr L idx =
     (if idx < 0 \<and> nat (- idx) \<le> length (stack L)
      then Some (stack L ! (nat (- idx) - 1)) else None)"

text \<open>
  Modelled from the spec: \<^verbatim>\<open>lua_call(L, nargs, nresults)\<close>. The function lies below its
  \<open>nargs\<close> arguments. The function and the arguments are popped, the function runs on
  the arguments in the same execution context, and its results, cut or padded with nil
  to \<open>nresults\<close> values, are pushed. An error of the function propagates to the caller
  of \<^verbatim>\<open>lua_call\<close>; the stack is then left as it was at the call.
\<close>

definition lua_call :: "cfunc_sem \<Rightarrow> lua_State \<Rightarrow> nat \<Rightarrow> nat \<Rightarrow> lua_result" where
  "lua_call sem L nargs nresults =
     (if length (stack L) \<le> nargs then Inl (RuntimeError, L)
      else case stack L ! nargs of
        TFunc f \<Rightarrow>
          (let args = rev (take nargs (stack L));
               L0 = L\<lparr>api_log := api_log L @ [EvCall f args nresults]\<rparr>
           in case sem f args (glob L) of
                (Inl obj, g) \<Rightarrow> Inl (ModuleInstallFailure obj, L0\<lparr>glob := g\<rparr>)
              | (Inr res, g) \<Rightarrow>
                  Inr (L0\<lparr>stack := rev (take nresults (res @ replicate nresults TNil))
                                    @ drop (Suc nargs) (stack L),
                          glob := g\<rparr>))
      | _ \<Rightarrow> Inl (RuntimeError, L))"

text \<open>
  Modelled from the spec: the pseudo-index of the registry, a macro of \<^verbatim>\<open>lua.h\<close>. The
  spec calls it a reserved key; all that matters of its value is that it is no index
  of a stack slot the installer uses.
\<close>

definition LUA_REGISTRYINDEX :: int where
  "LUA_REGISTRYINDEX = - 10000"

text \<open>
  Modelled from the spec: \<^verbatim>\<open>luaL_findtable(L, LUA_REGISTRYINDEX, fname, szhint)\<close> locates
  the table stored in the registry under \<open>fname\<close>, or creates it with room for
  \<open>szhint\<close> fields and stores it there; it pushes the table and returns \<^verbatim>\<open>NULL\<close>
  (\<open>None\<close>). Creating the table raises \<open>PreloadTableCreationFailure\<close> when memory is
  exhausted. The spec is silent on a slot that holds a value which is not a table; the
  model follows the auxiliary library of Lua 5.1, which then pushes nothing, raises
  nothing and returns the name (\<open>Some fname\<close>). Only the registry is supported as the
  place to look in.
\<close>

definition luaL_findtable ::
  "lua_State \<Rightarrow> int \<Rightarrow> string \<Rightarrow> nat \<Rightarrow> (lua_Error \<times> lua_State) + (string option \<times> lua_State)"
where
  "luaL_findtable L idx fname szhint =
     (let L0 = L\<lparr>api_log := api_log L @ [EvFindTable fname szhint]\<rparr>; g = glob L
      in if idx \<noteq> LUA_REGISTRYINDEX then Inl (RuntimeError, L0)
         else case registry g fname of
           Some (TTab r) \<Rightarrow> Inr (None, L0\<lparr>stack := TTab r # stack L\<rparr>)
         | Some (TStr s) \<Rightarrow> Inr (Some fname, L0)
         | Some (TFunc f) \<Rightarrow> Inr (Some fname, L0)
         | _ \<Rightarrow>
             if out_of_memory g then Inl (PreloadTableCreationFailure, L0)
             else
               (let r = length (tabs g)
                in Inr (None,
                        L0\<lparr>stack := TTab r # stack L,
                           glob := g\<lparr>registry := (registry g)(fname \<mapsto> TTab r),
                                     tabs := tabs g @ [\<lparr>node = Map.empty, hsize = szhint\<rparr>]\<rparr>\<rparr>)))"

text \<open>
  Modelled from the spec: \<^verbatim>\<open>lua_setfield(L, idx, k)\<close> stores the value on top of the stack
  under key \<open>k\<close> in the table at \<open>idx\<close>, and pops the value.
\<close>

definition lua_setfield :: "lua_State \<Rightarrow> int \<Rightarrow> string \<Rightarrow> lua_result" where
  "lua_setfield L idx k =
     (case stack L of
        [] \<Rightarrow> Inl (RuntimeError, L)
      | v # rest \<Rightarrow>
          (let L0 = L\<lparr>api_log := api_log L @ [EvSetField k v]\<rparr>; g = glob L
           in case index2adr L idx of
                Some (TTab r) \<Rightarrow>
                  if r < length (tabs g)
                  then Inr (L0\<lparr>stack := rest,
                               glob := g\<lparr>tabs := (tabs g)
                                 [r := (tabs g ! r)\<lparr>node := (node (tabs g ! r))(k \<mapsto> v)\<rparr>]\<rparr>\<rparr>)
                  else Inl (RuntimeError, L0)
              | _ \<Rightarrow> Inl (RuntimeError, L0)))"

subsection \<open>The installer\<close>

text \<open>
  The first loop of \<^verbatim>\<open>luaL_openlibs\<close> (lines 62 to 66): for each entry push its function,
  push its name, call with one argument and no result. The loop stops at the first
  entry whose \<open>func\<close> is \<^verbatim>\<open>NULL\<close>; both tables end with such an entry, so the end of the
  list is never reached.
\<close>

fun load_loop :: "cfunc_sem \<Rightarrow> luaL_Reg option list \<Rightarrow> lua_State \<Rightarrow> lua_result" where
  "load_loop sem [] L = Inr L"
| "load_loop sem (None # libs) L = Inr L"
| "load_loop sem (Some lib # libs) L =
     (case lua_call sem (lua_pushstring (lua_pushcfunction L (func lib)) (name lib)) 1 0 of
        Inl e \<Rightarrow> Inl e
      | Inr L' \<Rightarrow> load_loop sem libs L')"

text \<open>
  The second loop (lines 69 to 72): for each entry push its function and store it under
  the entry's name in the table just below, the one \<^verbatim>\<open>luaL_findtable\<close> pushed.
\<close>

fun preload_loop :: "luaL_Reg option list \<Rightarrow> lua_State \<Rightarrow> lua_result" where
  "preload_loop [] L = Inr L"
| "preload_loop (None # libs) L = Inr L"
| "preload_loop (Some lib # libs) L =
     (case lua_setfield (lua_pushcfunction L (func lib)) (- 2) (name lib) of
        Inl e \<Rightarrow> Inl e
      | Inr L' \<Rightarrow> preload_loop libs L')"

text \<open>
  The size hint \<^verbatim>\<open>sizeof(lj_lib_preload)/sizeof(lj_lib_preload[0])-1\<close>: the number of
  elements of the array less one.
\<close>

definition preload_szhint :: "build_config \<Rightarrow> nat" where
  "preload_szhint cfg = length (lj_lib_preload cfg) - 1"

text \<open>
  \<^verbatim>\<open>luaL_openlibs\<close>: the first loop, the look-up of \<^verbatim>\<open>_PRELOAD\<close> in the registry, the second
  loop, and the pop of one value. Line 67 calls \<^verbatim>\<open>luaL_findtable\<close> as a statement: what it
  returns is dropped, and lines 69 to 73 run whether or not it pushed a table.
\<close>

definition luaL_openlibs :: "cfunc_sem \<Rightarrow> build_config \<Rightarrow> lua_State \<Rightarrow> lua_result" where
  "luaL_openlibs sem cfg L =
     (case load_loop sem (lj_lib_load cfg) L of
        Inl e \<Rightarrow> Inl e
      | Inr L1 \<Rightarrow>
          (case luaL_findtable L1 LUA_REGISTRYINDEX ''_PRELOAD'' (preload_szhint cfg) of
             Inl e \<Rightarrow> Inl e
           | Inr (problem, L2) \<Rightarrow>
               (case preload_loop (lj_lib_preload cfg) L2 of
                  Inl e \<Rightarrow> Inl e
                | Inr L3 \<Rightarrow> lua_pop L3 1)))"

subsection \<open>Vocabulary of the statements\<close>

text \<open>The state in which a run ends, whether it returns or raises.\<close>

fun final_state :: "lua_result \<Rightarrow> lua_State" where
  "final_state (Inl (e, L)) = L"
| "final_state (Inr L) = L"

text \<open>The API events of a run that started in \<open>L\<close>.\<close>

definition new_events :: "lua_State \<Rightarrow> lua_result \<Rightarrow> api_event list" where
  "new_events L r = drop (length (api_log L)) (api_log (final_state r))"

text \<open>
  The event of invoking a descriptor's entry point on its name, taking no result; the
  event of storing a descriptor's entry point under its name.
\<close>

definition call_event :: "luaL_Reg \<Rightarrow> api_event" where
  "call_event lib = EvCall (func lib) [TStr (name lib)] 0"

definition store_event :: "luaL_Reg \<Rightarrow> api_event" where
  "store_event lib = EvSetField (name lib) (TFunc (func lib))"

definition install_script :: "build_config \<Rightarrow> api_event list" where
  "install_script cfg =
     map call_event (EagerModuleSet cfg)
     @ EvFindTable ''_PRELOAD'' (length (LazyModuleSet cfg))
     # map store_event (LazyModuleSet cfg)"

text \<open>
  The spec's step 1 on the global state alone: run the entry points one after the
  other, each on its name, stop at the first that raises and keep the state it left.
\<close>

fun spec_install_eager ::
  "cfunc_sem \<Rightarrow> luaL_Reg list \<Rightarrow> global_State \<Rightarrow> (TValue \<times> global_State) + global_State"
where
  "spec_install_eager sem [] g = Inr g"
| "spec_install_eager sem (lib # libs) g =
     (case sem (func lib) [TStr (name lib)] g of
        (Inl obj, g') \<Rightarrow> Inl (obj, g')
      | (Inr res, g') \<Rightarrow> spec_install_eager sem libs g')"

text \<open>
  How many entry points a run of the spec's step 1 invokes: all of them, or those up to
  and with the first that raises.
\<close>

fun eager_calls_made :: "cfunc_sem \<Rightarrow> luaL_Reg list \<Rightarrow> global_State \<Rightarrow> nat" where
  "eager_calls_made sem [] g = 0"
| "eager_calls_made sem (lib # libs) g =
     (case sem (func lib) [TStr (name lib)] g of
        (Inl obj, g') \<Rightarrow> 1
      | (Inr res, g') \<Rightarrow> Suc (eager_calls_made sem libs g'))"

text \<open>
  The registry slot \<open>_PRELOAD\<close> holds nil or a table: what it holds on a freshly created
  state, before and after the package library has run.
\<close>

definition preload_slot_free_or_table :: "global_State \<Rightarrow> bool" where
  "preload_slot_free_or_table g =
     (case registry g ''_PRELOAD'' of
        Some (TStr s) \<Rightarrow> False
      | Some (TFunc f) \<Rightarrow> False
      | _ \<Rightarrow> True)"

text \<open>
  The slot holds a table of the store, or it holds nil and there is memory to create
  the table.
\<close>

definition preload_slot_usable :: "global_State \<Rightarrow> bool" where
  "preload_slot_usable g =
     (case registry g ''_PRELOAD'' of
        None \<Rightarrow> \<not> out_of_memory g
      | Some TNil \<Rightarrow> \<not> out_of_memory g
      | Some (TTab r) \<Rightarrow> r < length (tabs g)
      | Some (TStr s) \<Rightarrow> False
      | Some (TFunc f) \<Rightarrow> False)"

text \<open>The PreloadTable as the module loader finds it: through the registry.\<close>

definition preload_field :: "lua_State \<Rightarrow> string \<Rightarrow> TValue option" where
  "preload_field L k =
     (case registry (glob L) ''_PRELOAD'' of
        Some (TTab r) \<Rightarrow>
          if r < length (tabs (glob L)) then node (tabs (glob L) ! r) k else None
      | _ \<Rightarrow> None)"

text \<open>The size hint with which the PreloadTable was created.\<close>

definition preload_hsize :: "lua_State \<Rightarrow> nat option" where
  "preload_hsize L =
     (case registry (glob L) ''_PRELOAD'' of
        Some (TTab r) \<Rightarrow>
          if r < length (tabs (glob L)) then Some (hsize (tabs (glob L) ! r)) else None
      | _ \<Rightarrow> None)"

text \<open>Entry points that behave as \<open>sem\<close> says but return no values.\<close>

definition without_results :: "cfunc_sem \<Rightarrow> cfunc_sem" where
  "without_results sem f args g =
     (case sem f args g of (Inr res, g') \<Rightarrow> (Inr [], g') | (Inl obj, g') \<Rightarrow> (Inl obj, g'))"

subsection \<open>Example inputs\<close>

text \<open>
  The build of the spec's concrete scenario: base and math eager, ffi lazy, every other
  library disabled.
\<close>

definition example_config :: build_config where
  "example_config =
     \<lparr>WB_DISABLE_LIB_BASE = False, WB_DISABLE_LIB_PACKAGE = True,
      WB_DISABLE_LIB_TABLE = True, WB_DISABLE_LIB_IO = True, WB_DISABLE_LIB_OS = True,
      WB_DISABLE_LIB_STRING = True, WB_DISABLE_LIB_MATH = False,
      WB_DISABLE_LIB_DEBUG = True, WB_DISABLE_LIB_BIT = True, WB_DISABLE_LIB_JIT = True,
      LJ_HASFFI = True\<rparr>"

text \<open>The same build with the package library as well.\<close>

definition example_config_package :: build_config where
  "example_config_package = example_config\<lparr>WB_DISABLE_LIB_PACKAGE := False\<rparr>"

text \<open>The same build on a platform without the foreign-function interface.\<close>

definition example_config_noffi :: build_config where
  "example_config_noffi = example_config\<lparr>LJ_HASFFI := False\<rparr>"

text \<open>A state with one value of the host on the stack and nothing else.\<close>

definition example_state :: lua_State where
  "example_state =
     \<lparr>stack = [TStr ''host''],
      glob = \<lparr>globals = Map.empty, registry = Map.empty, tabs = [],
              out_of_memory = False\<rparr>,
      api_log = []\<rparr>"

text \<open>
  The same state where the host has stored a string in the registry under
  \<open>_PRELOAD\<close>; and a state with that registry where the value of the host on the stack is
  a table of its own.
\<close>

definition example_state_spoiled :: lua_State where
  "example_state_spoiled =
     \<lparr>stack = [TStr ''host''],
      glob = \<lparr>globals = Map.empty, registry = [''_PRELOAD'' \<mapsto> TStr ''spoiled''],
              tabs = [], out_of_memory = False\<rparr>,
      api_log = []\<rparr>"


text \<open>
  Entry points that bind a global under the name they receive and return one value;
  and the same where the math library raises.
\<close>

definition example_sem :: cfunc_sem where
  "example_sem f args g =
     (case args of
        [TStr n] \<Rightarrow> (Inr [TFunc f], g\<lparr>globals := (globals g)(n \<mapsto> TFunc f)\<rparr>)
      | _ \<Rightarrow> (Inl (TStr ''bad argument''), g))"

definition example_sem_failing :: cfunc_sem where
  "example_sem_failing f args g =
     (if f = luaopen_math then (Inl (TStr ''no memory''), g) else example_sem f args g)"


section \<open>Properties\<close>

lemmas libname_defs =
  LUA_LOADLIBNAME_def LUA_TABLIBNAME_def LUA_IOLIBNAME_def LUA_OSLIBNAME_def
  LUA_STRLIBNAME_def LUA_MATHLIBNAME_def LUA_DBLIBNAME_def LUA_BITLIBNAME_def
  LUA_JITLIBNAME_def LUA_FFILIBNAME_def

subsection \<open>The tables\<close>

lemma entries_cond:
  "entries ((if b then [] else [Some x]) @ rest) = (if b then [] else [x]) @ entries rest"
  by simp

lemma concat_cond_filter:
  "concat (map (\<lambda>m. if P m then [] else [f m]) ms) = map f (filter (\<lambda>m. \<not> P m) ms)"
  by (induction ms) simp_all

lemma EagerModuleSet_concat:
  "EagerModuleSet cfg =
     concat (map (\<lambda>m. if disabled cfg m then [] else [descriptor m]) eager_modules)"
  unfolding EagerModuleSet_def lj_lib_load_def eager_modules_def
  by (simp only: entries_cond entries.simps list.map concat.simps disabled.simps
        descriptor.simps append_Nil2)

lemma EagerModuleSet_filter:
  "EagerModuleSet cfg = map descriptor (filter (\<lambda>m. \<not> disabled cfg m) eager_modules)"
  by (simp only: EagerModuleSet_concat concat_cond_filter)

lemma LazyModuleSet_filter:
  "LazyModuleSet cfg = map descriptor (filter (\<lambda>m. \<not> disabled cfg m) [LIB_FFI])"
  unfolding LazyModuleSet_def lj_lib_preload_def
  by simp

lemma name_descriptor_inj: "name (descriptor x) = name (descriptor y) \<Longrightarrow> x = y"
  by (cases x; cases y; simp add: libname_defs)

lemma func_descriptor_inj: "func (descriptor x) = func (descriptor y) \<Longrightarrow> x = y"
  by (cases x; cases y; simp)

lemma descriptor_inj: "descriptor x = descriptor y \<Longrightarrow> x = y"
  using func_descriptor_inj by metis

lemma LIB_FFI_not_eager: "LIB_FFI \<notin> set eager_modules"
  by (simp add: eager_modules_def)

lemma distinct_eager_modules: "distinct eager_modules"
  by (simp add: eager_modules_def)

lemma in_EagerModuleSet:
  "lib \<in> set (EagerModuleSet cfg) \<longleftrightarrow>
     (\<exists>m\<in>set eager_modules. \<not> disabled cfg m \<and> lib = descriptor m)"
  unfolding EagerModuleSet_filter by auto

lemma in_LazyModuleSet:
  "lib \<in> set (LazyModuleSet cfg) \<longleftrightarrow> (LJ_HASFFI cfg \<and> lib = descriptor LIB_FFI)"
  unfolding LazyModuleSet_filter by auto

lemma distinct_EagerModuleSet: "distinct (EagerModuleSet cfg)"
  unfolding EagerModuleSet_filter
  by (simp add: distinct_map distinct_eager_modules inj_on_def descriptor_inj)

lemma subseq_EagerModuleSet: "subseq (EagerModuleSet cfg) full_load_order"
  unfolding EagerModuleSet_filter full_load_order_def
  by (simp add: subseq_map)

lemma preload_szhint_eq: "preload_szhint cfg = length (LazyModuleSet cfg)"
  by (simp add: preload_szhint_def LazyModuleSet_def lj_lib_preload_def)

subsection \<open>The installer, step by step\<close>

lemma lua_call_pushed:
  "lua_call sem (lua_pushstring (lua_pushcfunction L f) n) (Suc 0) 0 =
     (case sem f [TStr n] (glob L) of
        (Inl obj, g) \<Rightarrow>
          Inl (ModuleInstallFailure obj,
               L\<lparr>stack := TStr n # TFunc f # stack L, glob := g,
                 api_log := api_log L @ [EvCall f [TStr n] 0]\<rparr>)
      | (Inr res, g) \<Rightarrow> Inr (L\<lparr>glob := g, api_log := api_log L @ [EvCall f [TStr n] 0]\<rparr>))"
  by (simp add: lua_call_def lua_pushstring_def lua_pushcfunction_def split: prod.splits sum.splits)

lemma load_loop_Inr:
  "load_loop sem libs L = Inr L' \<Longrightarrow>
     L' = L\<lparr>glob := glob L', api_log := api_log L @ map call_event (entries libs)\<rparr>
     \<and> spec_install_eager sem (entries libs) (glob L) = Inr (glob L')"
proof (induction sem libs L rule: load_loop.induct)
  case (3 sem lib libs L)
  then show ?case
    by (auto simp: lua_call_pushed call_event_def split: prod.splits sum.splits)
qed simp_all

lemma load_loop_Inl:
  "load_loop sem libs L = Inl (e, L') \<Longrightarrow>
     \<exists>k<length (entries libs).
        api_log L' = api_log L @ map call_event (take (Suc k) (entries libs))"
proof (induction sem libs L rule: load_loop.induct)
  case (3 sem lib libs L)
  show ?case
  proof (cases "sem (func lib) [TStr (name lib)] (glob L)")
    case (Pair out g)
    show ?thesis
    proof (cases out)
      case (Inl obj)
      with 3 Pair show ?thesis
        by (auto simp: lua_call_pushed call_event_def)
    next
      case (Inr res)
      let ?L1 = "L\<lparr>glob := g, api_log := api_log L @ [EvCall (func lib) [TStr (name lib)] 0]\<rparr>"
      from 3 Pair Inr have "load_loop sem libs ?L1 = Inl (e, L')"
        by (simp add: lua_call_pushed)
      with 3(1)[of ?L1] Pair Inr obtain k where
        "k < length (entries libs)"
        "api_log L' = api_log ?L1 @ map call_event (take (Suc k) (entries libs))"
        by (auto simp: lua_call_pushed)
      then show ?thesis
        by (intro exI[of _ "Suc k"]) (simp add: call_event_def)
    qed
  qed
qed simp_all

lemma load_loop_fail:
  "entries libs = pre @ lib # post \<Longrightarrow>
   spec_install_eager sem pre (glob L) = Inr g1 \<Longrightarrow>
   sem (func lib) [TStr (name lib)] g1 = (Inl obj, g2) \<Longrightarrow>
   load_loop sem libs L =
     Inl (ModuleInstallFailure obj,
          L\<lparr>stack := TStr (name lib) # TFunc (func lib) # stack L, glob := g2,
            api_log := api_log L @ map call_event (pre @ [lib])\<rparr>)"
proof (induction pre arbitrary: libs L)
  case Nil
  then obtain rest where "libs = Some lib # rest"
    by (cases libs rule: entries.cases) auto
  with Nil show ?case
    by (simp add: lua_call_pushed call_event_def)
next
  case (Cons p pre)
  then obtain rest where libs: "libs = Some p # rest" "entries rest = pre @ lib # post"
    by (cases libs rule: entries.cases) auto
  from Cons.prems(2) obtain res g0 where
    s: "sem (func p) [TStr (name p)] (glob L) = (Inr res, g0)"
       "spec_install_eager sem pre g0 = Inr g1"
    by (auto split: prod.splits sum.splits)
  let ?L1 = "L\<lparr>glob := g0, api_log := api_log L @ [EvCall (func p) [TStr (name p)] 0]\<rparr>"
  have "load_loop sem rest ?L1 =
     Inl (ModuleInstallFailure obj,
          ?L1\<lparr>stack := TStr (name lib) # TFunc (func lib) # stack ?L1, glob := g2,
            api_log := api_log ?L1 @ map call_event (pre @ [lib])\<rparr>)"
    using Cons.IH[of rest ?L1] libs(2) s(2) Cons.prems(3) by simp
  then show ?case
    using libs(1) s(1) by (simp add: lua_call_pushed call_event_def)
qed

lemma load_loop_without_results:
  "load_loop (without_results sem) libs L = load_loop sem libs L"
  by (induction sem libs L rule: load_loop.induct)
     (auto simp: lua_call_pushed without_results_def split: prod.splits sum.splits)

lemma load_loop_success:
  "spec_install_eager sem (entries libs) (glob L) = Inr g1 \<Longrightarrow>
     load_loop sem libs L =
       Inr (L\<lparr>glob := g1, api_log := api_log L @ map call_event (entries libs)\<rparr>)"
proof (induction sem libs L rule: load_loop.induct)
  case (3 sem lib libs L)
  from "3.prems" obtain res g0 where
    s: "sem (func lib) [TStr (name lib)] (glob L) = (Inr res, g0)"
       "spec_install_eager sem (entries libs) g0 = Inr g1"
    by (auto split: prod.splits sum.splits)
  let ?L1 = "L\<lparr>glob := g0, api_log := api_log L @ [EvCall (func lib) [TStr (name lib)] 0]\<rparr>"
  have c: "lua_call sem (lua_pushstring (lua_pushcfunction L (func lib)) (name lib)) 1 0 = Inr ?L1"
    using s(1) by (simp add: lua_call_pushed)
  from "3.IH"[OF c] s(2) have
    "load_loop sem libs ?L1 =
       Inr (?L1\<lparr>glob := g1, api_log := api_log ?L1 @ map call_event (entries libs)\<rparr>)"
    by simp
  with c show ?case
    by (simp add: call_event_def)
qed simp_all

lemma load_loop_failure:
  "spec_install_eager sem (entries libs) (glob L) = Inl (obj, g2) \<Longrightarrow>
     \<exists>L'. load_loop sem libs L = Inl (ModuleInstallFailure obj, L') \<and> glob L' = g2
        \<and> api_log L' = api_log L
             @ map call_event (take (eager_calls_made sem (entries libs) (glob L)) (entries libs))"
proof (induction sem libs L rule: load_loop.induct)
  case (3 sem lib libs L)
  show ?case
  proof (cases "sem (func lib) [TStr (name lib)] (glob L)")
    case (Pair out g0)
    show ?thesis
    proof (cases out)
      case (Inl o1)
      with "3.prems" Pair show ?thesis
        by (simp add: lua_call_pushed call_event_def)
    next
      case (Inr res)
      let ?L1 = "L\<lparr>glob := g0, api_log := api_log L @ [EvCall (func lib) [TStr (name lib)] 0]\<rparr>"
      have c: "lua_call sem (lua_pushstring (lua_pushcfunction L (func lib)) (name lib)) 1 0
                 = Inr ?L1"
        using Pair Inr by (simp add: lua_call_pushed)
      from "3.prems" Pair Inr have "spec_install_eager sem (entries libs) (glob ?L1) = Inl (obj, g2)"
        by simp
      from "3.IH"[OF c this] obtain L' where
        "load_loop sem libs ?L1 = Inl (ModuleInstallFailure obj, L')" "glob L' = g2"
        "api_log L' = api_log ?L1
             @ map call_event (take (eager_calls_made sem (entries libs) (glob ?L1)) (entries libs))"
        by blast
      with c Pair Inr show ?thesis
        by (simp add: call_event_def)
    qed
  qed
qed simp_all

lemma eager_calls_made_pos:
  "spec_install_eager sem libs g = Inl (obj, g2) \<Longrightarrow> 0 < eager_calls_made sem libs g"
  by (cases libs) (auto split: prod.splits sum.splits)

lemma eager_calls_made_le: "eager_calls_made sem libs g \<le> length libs"
  by (induction libs arbitrary: g) (auto split: prod.splits sum.splits)

lemma luaL_findtable_log:
  "luaL_findtable L idx k n = Inl (e, L') \<Longrightarrow> api_log L' = api_log L @ [EvFindTable k n]"
  "luaL_findtable L idx k n = Inr (res, L') \<Longrightarrow> api_log L' = api_log L @ [EvFindTable k n]"
  by (auto simp: luaL_findtable_def Let_def split: option.splits TValue.splits if_splits)

lemma luaL_findtable_globals:
  "luaL_findtable L idx k n = Inr (res, L') \<Longrightarrow> globals (glob L') = globals (glob L)"
  by (auto simp: luaL_findtable_def Let_def split: option.splits TValue.splits if_splits)

lemma luaL_findtable_table:
  "luaL_findtable L LUA_REGISTRYINDEX ''_PRELOAD'' n = Inr (res, L') \<Longrightarrow>
   preload_slot_free_or_table (glob L) \<Longrightarrow>
     \<exists>r. stack L' = TTab r # stack L \<and> registry (glob L') ''_PRELOAD'' = Some (TTab r)"
  by (auto simp: luaL_findtable_def preload_slot_free_or_table_def Let_def
        split: option.splits TValue.splits if_splits)

lemma luaL_findtable_usable:
  "preload_slot_usable (glob L) \<Longrightarrow>
     \<exists>r L'. luaL_findtable L LUA_REGISTRYINDEX ''_PRELOAD'' n = Inr (None, L')
        \<and> stack L' = TTab r # stack L \<and> r < length (tabs (glob L'))"
  by (auto simp: luaL_findtable_def preload_slot_usable_def Let_def
        split: option.splits TValue.splits if_splits)

lemma luaL_findtable_create:
  "luaL_findtable L LUA_REGISTRYINDEX k n = Inr (res, L') \<Longrightarrow> registry (glob L) k = None \<Longrightarrow>
     \<exists>r. stack L' = TTab r # stack L \<and> registry (glob L') k = Some (TTab r)
        \<and> r < length (tabs (glob L')) \<and> hsize (tabs (glob L') ! r) = n"
  by (auto simp: luaL_findtable_def Let_def split: if_splits)

lemma preload_loop_log:
  "preload_loop (lj_lib_preload cfg) L2 = Inl (e, L') \<Longrightarrow>
     api_log L' = api_log L2 @ map store_event (LazyModuleSet cfg)"
  "preload_loop (lj_lib_preload cfg) L2 = Inr L3 \<Longrightarrow>
     api_log L3 = api_log L2 @ map store_event (LazyModuleSet cfg)"
  by (cases "LJ_HASFFI cfg";
      auto simp: lj_lib_preload_def LazyModuleSet_def lua_setfield_def lua_pushcfunction_def
        index2adr_def store_event_def Let_def split: if_splits option.splits TValue.splits)+

lemma preload_loop_globals:
  "preload_loop (lj_lib_preload cfg) L2 = Inr L3 \<Longrightarrow>
     globals (glob L3) = globals (glob L2) \<and> registry (glob L3) = registry (glob L2)"
  by (cases "LJ_HASFFI cfg";
      auto simp: lj_lib_preload_def lua_setfield_def lua_pushcfunction_def
        index2adr_def Let_def split: if_splits option.splits TValue.splits list.splits)

lemma preload_loop_Inr:
  "preload_loop (lj_lib_preload cfg) L2 = Inr L3 \<Longrightarrow> stack L2 = TTab r # st \<Longrightarrow>
     stack L3 = stack L2
     \<and> (\<forall>lib\<in>set (LazyModuleSet cfg).
           r < length (tabs (glob L3))
           \<and> node (tabs (glob L3) ! r) (name lib) = Some (TFunc (func lib)))"
  by (cases "LJ_HASFFI cfg")
     (auto simp: lj_lib_preload_def LazyModuleSet_def lua_setfield_def lua_pushcfunction_def
        index2adr_def Let_def split: if_splits)

lemma preload_loop_hsize:
  "preload_loop (lj_lib_preload cfg) L2 = Inr L3 \<Longrightarrow> stack L2 = TTab r # st \<Longrightarrow>
   r < length (tabs (glob L2)) \<Longrightarrow>
     r < length (tabs (glob L3)) \<and> hsize (tabs (glob L3) ! r) = hsize (tabs (glob L2) ! r)"
  by (cases "LJ_HASFFI cfg")
     (auto simp: lj_lib_preload_def lua_setfield_def lua_pushcfunction_def
        index2adr_def Let_def split: if_splits)

lemma preload_loop_usable:
  "stack L2 = TTab r # st \<Longrightarrow> r < length (tabs (glob L2)) \<Longrightarrow>
     \<exists>L3. preload_loop (lj_lib_preload cfg) L2 = Inr L3 \<and> stack L3 = stack L2"
  by (cases "LJ_HASFFI cfg")
     (auto simp: lj_lib_preload_def lua_setfield_def lua_pushcfunction_def
        index2adr_def Let_def)

lemma lua_pop_Inr:
  "lua_pop L n = Inr L' \<Longrightarrow>
     stack L' = drop n (stack L) \<and> glob L' = glob L \<and> api_log L' = api_log L"
  by (auto simp: lua_pop_def split: if_splits)

lemma lua_pop_Inl: "lua_pop L n = Inl (e, L') \<Longrightarrow> L' = L"
  by (auto simp: lua_pop_def split: if_splits)

text \<open>The steps of a run that returns.\<close>

lemma luaL_openlibs_steps:
  assumes "luaL_openlibs sem cfg L = Inr L'"
  obtains L1 res L2 L3 where
    "load_loop sem (lj_lib_load cfg) L = Inr L1"
    "luaL_findtable L1 LUA_REGISTRYINDEX ''_PRELOAD'' (preload_szhint cfg) = Inr (res, L2)"
    "preload_loop (lj_lib_preload cfg) L2 = Inr L3"
    "lua_pop L3 1 = Inr L'"
  using assms by (auto simp: luaL_openlibs_def split: sum.splits prod.splits)

lemma load_loop_Inr_fields:
  assumes "load_loop sem (lj_lib_load cfg) L = Inr L1"
  shows "stack L1 = stack L"
    and "api_log L1 = api_log L @ map call_event (EagerModuleSet cfg)"
    and "spec_install_eager sem (EagerModuleSet cfg) (glob L) = Inr (glob L1)"
proof -
  from load_loop_Inr[OF assms] have
    a1: "L1 = L\<lparr>glob := glob L1, api_log := api_log L @ map call_event (EagerModuleSet cfg)\<rparr>" and
    a2: "spec_install_eager sem (EagerModuleSet cfg) (glob L) = Inr (glob L1)"
    by (simp_all add: EagerModuleSet_def)
  from a1 show "stack L1 = stack L"
    by (metis lua_State.select_convs(1) lua_State.surjective lua_State.update_convs(2,3))
  from a1 show "api_log L1 = api_log L @ map call_event (EagerModuleSet cfg)"
    by (metis lua_State.select_convs(3) lua_State.surjective lua_State.update_convs(3))
  from a2 show "spec_install_eager sem (EagerModuleSet cfg) (glob L) = Inr (glob L1)" .
qed

lemma luaL_openlibs_Inr:
  assumes "luaL_openlibs sem cfg L = Inr L'"
  shows "api_log L' = api_log L @ install_script cfg"
    and "\<exists>g1. spec_install_eager sem (EagerModuleSet cfg) (glob L) = Inr g1
            \<and> globals (glob L') = globals g1"
proof -
  from assms obtain L1 res L2 L3 where
    l1: "load_loop sem (lj_lib_load cfg) L = Inr L1" and
    l2: "luaL_findtable L1 LUA_REGISTRYINDEX ''_PRELOAD'' (preload_szhint cfg) = Inr (res, L2)" and
    l3: "preload_loop (lj_lib_preload cfg) L2 = Inr L3" and
    l4: "lua_pop L3 1 = Inr L'"
    by (rule luaL_openlibs_steps)
  note a = load_loop_Inr_fields[OF l1]
  show "api_log L' = api_log L @ install_script cfg"
    using a(2) luaL_findtable_log(2)[OF l2] preload_loop_log(2)[OF l3] lua_pop_Inr[OF l4]
    by (simp add: install_script_def preload_szhint_eq)
  show "\<exists>g1. spec_install_eager sem (EagerModuleSet cfg) (glob L) = Inr g1
            \<and> globals (glob L') = globals g1"
    using a(3) luaL_findtable_globals[OF l2] preload_loop_globals[OF l3] lua_pop_Inr[OF l4]
    by simp
qed

lemma luaL_openlibs_Inr_table:
  assumes "luaL_openlibs sem cfg L = Inr L'"
    and "spec_install_eager sem (EagerModuleSet cfg) (glob L) = Inr g1"
    and "preload_slot_free_or_table g1"
  shows "stack L' = stack L"
    and "\<forall>lib\<in>set (LazyModuleSet cfg). preload_field L' (name lib) = Some (TFunc (func lib))"
proof -
  from assms(1) obtain L1 res L2 L3 where
    l1: "load_loop sem (lj_lib_load cfg) L = Inr L1" and
    l2: "luaL_findtable L1 LUA_REGISTRYINDEX ''_PRELOAD'' (preload_szhint cfg) = Inr (res, L2)" and
    l3: "preload_loop (lj_lib_preload cfg) L2 = Inr L3" and
    l4: "lua_pop L3 1 = Inr L'"
    by (rule luaL_openlibs_steps)
  note a = load_loop_Inr_fields[OF l1]
  from a(3) assms(2) have "glob L1 = g1" by simp
  with assms(3) have "preload_slot_free_or_table (glob L1)" by simp
  from luaL_findtable_table[OF l2 this] obtain r where
    b: "stack L2 = TTab r # stack L1" "registry (glob L2) ''_PRELOAD'' = Some (TTab r)"
    by blast
  note c = preload_loop_Inr[OF l3 b(1)] preload_loop_globals[OF l3]
  note d = lua_pop_Inr[OF l4]
  show "stack L' = stack L"
    using d c(1) b(1) a(1) by simp
  show "\<forall>lib\<in>set (LazyModuleSet cfg). preload_field L' (name lib) = Some (TFunc (func lib))"
    using c b(2) d by (simp add: preload_field_def)
qed

lemma luaL_openlibs_returns:
  assumes "spec_install_eager sem (EagerModuleSet cfg) (glob L) = Inr g1"
    and "preload_slot_usable g1"
  shows "\<exists>L'. luaL_openlibs sem cfg L = Inr L'"
proof -
  let ?L1 = "L\<lparr>glob := g1, api_log := api_log L @ map call_event (EagerModuleSet cfg)\<rparr>"
  have l1: "load_loop sem (lj_lib_load cfg) L = Inr ?L1"
    using load_loop_success[of sem "lj_lib_load cfg" L g1] assms(1)
    by (simp add: EagerModuleSet_def)
  from assms(2) have "preload_slot_usable (glob ?L1)" by simp
  from luaL_findtable_usable[OF this, of "preload_szhint cfg"] obtain r L2 where
    l2: "luaL_findtable ?L1 LUA_REGISTRYINDEX ''_PRELOAD'' (preload_szhint cfg) = Inr (None, L2)"
    and s2: "stack L2 = TTab r # stack ?L1" "r < length (tabs (glob L2))"
    by blast
  from preload_loop_usable[OF s2, of cfg] obtain L3 where
    l3: "preload_loop (lj_lib_preload cfg) L2 = Inr L3" "stack L3 = stack L2"
    by blast
  with s2(1) have "1 \<le> length (stack L3)" by simp
  then obtain L' where "lua_pop L3 1 = Inr L'"
    by (simp add: lua_pop_def)
  with l1 l2 l3(1) show ?thesis
    by (simp add: luaL_openlibs_def)
qed

lemma luaL_openlibs_after_eager:
  assumes "load_loop sem (lj_lib_load cfg) L = Inr L1"
  shows "\<exists>rest. api_log (final_state (luaL_openlibs sem cfg L))
           = api_log L1 @ EvFindTable ''_PRELOAD'' (length (LazyModuleSet cfg)) # rest
         \<and> prefix rest (map store_event (LazyModuleSet cfg))"
proof (cases "luaL_findtable L1 LUA_REGISTRYINDEX ''_PRELOAD'' (preload_szhint cfg)")
  case (Inl p)
  obtain e L' where p: "p = (e, L')" by (cases p)
  with Inl assms have "luaL_openlibs sem cfg L = Inl (e, L')"
    by (simp add: luaL_openlibs_def)
  with luaL_findtable_log(1)[OF Inl[unfolded p]] show ?thesis
    by (simp add: preload_szhint_eq)
next
  case (Inr p)
  obtain res L2 where p: "p = (res, L2)" by (cases p)
  note g2 = luaL_findtable_log(2)[OF Inr[unfolded p]]
  show ?thesis
  proof (cases "preload_loop (lj_lib_preload cfg) L2")
    case l3: (Inl q)
    obtain e L' where q: "q = (e, L')" by (cases q)
    with l3 Inr p assms have "luaL_openlibs sem cfg L = Inl (e, L')"
      by (simp add: luaL_openlibs_def)
    with preload_loop_log(1)[OF l3[unfolded q]] g2 show ?thesis
      by (simp add: preload_szhint_eq)
  next
    case l3: (Inr L3)
    note g3 = preload_loop_log(2)[OF l3]
    have r: "luaL_openlibs sem cfg L = lua_pop L3 1"
      using assms Inr p l3 by (simp add: luaL_openlibs_def)
    have "api_log (final_state (lua_pop L3 1)) = api_log L3"
      by (simp add: lua_pop_def)
    with r g3 g2 show ?thesis
      by (simp add: preload_szhint_eq)
  qed
qed

lemma luaL_openlibs_log:
  "\<exists>evs. api_log (final_state (luaL_openlibs sem cfg L)) = api_log L @ evs
     \<and> prefix evs (install_script cfg) \<and> evs \<noteq> []"
proof (cases "load_loop sem (lj_lib_load cfg) L")
  case (Inl p)
  obtain e L' where p: "p = (e, L')" by (cases p)
  with Inl have r: "luaL_openlibs sem cfg L = Inl (e, L')"
    by (simp add: luaL_openlibs_def)
  from load_loop_Inl[OF Inl[unfolded p]] obtain k where
    k: "api_log L' = api_log L @ map call_event (take (Suc k) (EagerModuleSet cfg))"
       "k < length (EagerModuleSet cfg)"
    by (auto simp: EagerModuleSet_def)
  have "prefix (map call_event (take (Suc k) (EagerModuleSet cfg))) (install_script cfg)"
    unfolding install_script_def
    by (metis append_take_drop_id map_append prefixI append.assoc)
  moreover from k(2) have "map call_event (take (Suc k) (EagerModuleSet cfg)) \<noteq> []"
    by (cases "EagerModuleSet cfg") simp_all
  ultimately show ?thesis
    using r k(1) by simp
next
  case (Inr L1)
  from luaL_openlibs_after_eager[OF Inr] obtain rest where
    "api_log (final_state (luaL_openlibs sem cfg L))
       = api_log L1 @ EvFindTable ''_PRELOAD'' (length (LazyModuleSet cfg)) # rest"
    "prefix rest (map store_event (LazyModuleSet cfg))"
    by blast
  with load_loop_Inr_fields(2)[OF Inr] show ?thesis
    by (simp add: install_script_def)
qed

lemma luaL_openlibs_fail:
  assumes "EagerModuleSet cfg = pre @ lib # post"
    and "spec_install_eager sem pre (glob L) = Inr g1"
    and "sem (func lib) [TStr (name lib)] g1 = (Inl obj, g2)"
  shows "luaL_openlibs sem cfg L =
     Inl (ModuleInstallFailure obj,
          L\<lparr>stack := TStr (name lib) # TFunc (func lib) # stack L, glob := g2,
            api_log := api_log L @ map call_event (pre @ [lib])\<rparr>)"
  using load_loop_fail[OF assms(1)[unfolded EagerModuleSet_def] assms(2,3)]
  by (simp add: luaL_openlibs_def)

lemma luaL_openlibs_eager_failure:
  assumes "spec_install_eager sem (EagerModuleSet cfg) (glob L) = Inl (obj, g2)"
  shows "\<exists>L'. luaL_openlibs sem cfg L = Inl (ModuleInstallFailure obj, L') \<and> glob L' = g2
     \<and> api_log L' = api_log L
          @ map call_event
              (take (eager_calls_made sem (EagerModuleSet cfg) (glob L)) (EagerModuleSet cfg))"
  using load_loop_failure[of sem "lj_lib_load cfg" L obj g2] assms
  by (auto simp: luaL_openlibs_def EagerModuleSet_def)

lemma luaL_openlibs_without_results:
  "luaL_openlibs (without_results sem) cfg L = luaL_openlibs sem cfg L"
  by (simp add: luaL_openlibs_def load_loop_without_results)

lemma new_events_luaL_openlibs:
  "api_log (final_state (luaL_openlibs sem cfg L))
     = api_log L @ new_events L (luaL_openlibs sem cfg L)"
  "prefix (new_events L (luaL_openlibs sem cfg L)) (install_script cfg)"
  "new_events L (luaL_openlibs sem cfg L) \<noteq> []"
proof -
  obtain evs where
    e: "api_log (final_state (luaL_openlibs sem cfg L)) = api_log L @ evs"
       "prefix evs (install_script cfg)" "evs \<noteq> []"
    using luaL_openlibs_log by blast
  then have n: "new_events L (luaL_openlibs sem cfg L) = evs"
    by (simp add: new_events_def)
  show "api_log (final_state (luaL_openlibs sem cfg L))
     = api_log L @ new_events L (luaL_openlibs sem cfg L)"
    using e(1) n by simp
  show "prefix (new_events L (luaL_openlibs sem cfg L)) (install_script cfg)"
    using e(2) n by simp
  show "new_events L (luaL_openlibs sem cfg L) \<noteq> []"
    using e(3) n by simp
qed

lemma new_events_success:
  "luaL_openlibs sem cfg L = Inr L' \<Longrightarrow>
     new_events L (luaL_openlibs sem cfg L) = install_script cfg"
  using luaL_openlibs_Inr(1)[of sem cfg L L'] by (simp add: new_events_def)

lemma EvCall_in_script:
  "EvCall f args n \<in> set (install_script cfg) \<longleftrightarrow>
     (\<exists>lib\<in>set (EagerModuleSet cfg). f = func lib \<and> args = [TStr (name lib)] \<and> n = 0)"
  by (auto simp: install_script_def call_event_def store_event_def)

lemma EvSetField_in_script:
  "EvSetField k v \<in> set (install_script cfg) \<longleftrightarrow>
     (\<exists>lib\<in>set (LazyModuleSet cfg). k = name lib \<and> v = TFunc (func lib))"
  by (auto simp: install_script_def call_event_def store_event_def)

lemma EvFindTable_in_script:
  "EvFindTable k n \<in> set (install_script cfg) \<longleftrightarrow>
     (k = ''_PRELOAD'' \<and> n = length (LazyModuleSet cfg))"
  by (auto simp: install_script_def call_event_def store_event_def)

lemma luaL_openlibs_created_hsize:
  assumes "luaL_openlibs sem cfg L = Inr L'"
    and "spec_install_eager sem (EagerModuleSet cfg) (glob L) = Inr g1"
    and "registry g1 ''_PRELOAD'' = None"
  shows "preload_hsize L' = Some (length (LazyModuleSet cfg))"
proof -
  from assms(1) obtain L1 res L2 L3 where
    l1: "load_loop sem (lj_lib_load cfg) L = Inr L1" and
    l2: "luaL_findtable L1 LUA_REGISTRYINDEX ''_PRELOAD'' (preload_szhint cfg) = Inr (res, L2)" and
    l3: "preload_loop (lj_lib_preload cfg) L2 = Inr L3" and
    l4: "lua_pop L3 1 = Inr L'"
    by (rule luaL_openlibs_steps)
  from load_loop_Inr_fields(3)[OF l1] assms(2) have "glob L1 = g1"
    by simp
  with assms(3) have n: "registry (glob L1) ''_PRELOAD'' = None" by simp
  from luaL_findtable_create[OF l2 n] obtain r where
    b: "stack L2 = TTab r # stack L1" "registry (glob L2) ''_PRELOAD'' = Some (TTab r)"
       "r < length (tabs (glob L2))" "hsize (tabs (glob L2) ! r) = preload_szhint cfg"
    by auto
  from preload_loop_globals[OF l3] preload_loop_hsize[OF l3 b(1) b(3)] have
    c: "registry (glob L3) = registry (glob L2)" "r < length (tabs (glob L3))"
       "hsize (tabs (glob L3) ! r) = hsize (tabs (glob L2) ! r)"
    by simp_all
  from lua_pop_Inr[OF l4] have "glob L' = glob L3" by simp
  with b c show ?thesis
    by (simp add: preload_hsize_def preload_szhint_eq)
qed

subsection \<open>The example runs\<close>

lemmas api_defs = luaL_openlibs_def lj_lib_load_def lj_lib_preload_def preload_szhint_def
  lua_call_def lua_pushstring_def lua_pushcfunction_def lua_pop_def lua_setfield_def
  luaL_findtable_def index2adr_def LUA_REGISTRYINDEX_def Let_def libname_defs

lemma example_run:
  "\<exists>L'. luaL_openlibs example_sem example_config example_state = Inr L'"
  by (simp add: api_defs example_config_def example_state_def example_sem_def)

lemma example_eager:
  "EagerModuleSet example_config =
     [\<lparr>name = '''', func = luaopen_base\<rparr>, \<lparr>name = ''math'', func = luaopen_math\<rparr>]"
  by (simp add: EagerModuleSet_def lj_lib_load_def example_config_def libname_defs)

lemma example_lazy: "LazyModuleSet example_config = [\<lparr>name = ''ffi'', func = luaopen_ffi\<rparr>]"
  by (simp add: LazyModuleSet_def lj_lib_preload_def example_config_def libname_defs)

lemma example_eager_package:
  "EagerModuleSet example_config_package =
     [\<lparr>name = '''', func = luaopen_base\<rparr>, \<lparr>name = ''package'', func = luaopen_package\<rparr>,
      \<lparr>name = ''math'', func = luaopen_math\<rparr>]"
  by (simp add: EagerModuleSet_def lj_lib_load_def example_config_package_def
        example_config_def libname_defs)

lemma example_eager_noffi:
  "EagerModuleSet example_config_noffi =
     [\<lparr>name = '''', func = luaopen_base\<rparr>, \<lparr>name = ''math'', func = luaopen_math\<rparr>]"
  by (simp add: EagerModuleSet_def lj_lib_load_def example_config_noffi_def
        example_config_def libname_defs)

lemma example_spec_eager:
  "spec_install_eager example_sem (EagerModuleSet example_config) (glob example_state)
     = Inr \<lparr>globals = [[] \<mapsto> TFunc luaopen_base, ''math'' \<mapsto> TFunc luaopen_math],
            registry = Map.empty, tabs = [], out_of_memory = False\<rparr>"
  by (simp add: example_eager example_sem_def example_state_def)

lemma example_spoiled_run:
  "luaL_openlibs example_sem example_config_noffi example_state_spoiled =
     Inr \<lparr>stack = [],
          glob = \<lparr>globals = [[] \<mapsto> TFunc luaopen_base, ''math'' \<mapsto> TFunc luaopen_math],
                  registry = [''_PRELOAD'' \<mapsto> TStr ''spoiled''], tabs = [],
                  out_of_memory = False\<rparr>,
          api_log = [EvCall luaopen_base [TStr ''''] 0, EvCall luaopen_math [TStr ''math''] 0,
                     EvFindTable ''_PRELOAD'' 0]\<rparr>"
  by (simp add: api_defs example_config_noffi_def example_config_def example_state_spoiled_def
        example_sem_def)



section \<open>The claims\<close>

text \<open>
  Claim C1. What the entry points do decides the first loop, and nothing else does.
  When the entry points of the EagerModuleSet, run one after the other in the order of
  the table, each on its name, all return, the loop returns with the global state they
  left and an unchanged stack, having made one call per descriptor, in that order, each
  on one argument, the descriptor's name as a string, and taking zero results; only then
  comes the look-up of the PreloadTable, and the run returns when the registry slot is
  usable. When one of them raises, the run raises that error with the global state it
  left, after the calls up to and with the failing one. A run that returns has made all
  the calls, then the look-up, then the stores of the lazy entry points, and its global
  namespace is the one the eager entry points left. The values an entry point returns
  have no effect on the outcome.
\<close>

theorem eager_entry_points_called_in_order:
  "(\<forall>g1. spec_install_eager sem (EagerModuleSet cfg) (glob L) = Inr g1 \<longrightarrow>
       load_loop sem (lj_lib_load cfg) L
         = Inr (L\<lparr>glob := g1,
                  api_log := api_log L
                    @ map (\<lambda>lib. EvCall (func lib) [TStr (name lib)] 0) (EagerModuleSet cfg)\<rparr>)
       \<and> (\<exists>rest. new_events L (luaL_openlibs sem cfg L)
             = map (\<lambda>lib. EvCall (func lib) [TStr (name lib)] 0) (EagerModuleSet cfg)
               @ EvFindTable ''_PRELOAD'' (length (LazyModuleSet cfg)) # rest)
       \<and> (preload_slot_usable g1 \<longrightarrow> (\<exists>L'. luaL_openlibs sem cfg L = Inr L')))
   \<and> (\<forall>obj g2. spec_install_eager sem (EagerModuleSet cfg) (glob L) = Inl (obj, g2) \<longrightarrow>
       (\<exists>L'. luaL_openlibs sem cfg L = Inl (ModuleInstallFailure obj, L') \<and> glob L' = g2)
       \<and> new_events L (luaL_openlibs sem cfg L)
           = map (\<lambda>lib. EvCall (func lib) [TStr (name lib)] 0)
               (take (eager_calls_made sem (EagerModuleSet cfg) (glob L)) (EagerModuleSet cfg))
       \<and> 0 < eager_calls_made sem (EagerModuleSet cfg) (glob L))
   \<and> (\<forall>L'. luaL_openlibs sem cfg L = Inr L' \<longrightarrow>
         api_log L' = api_log L
           @ map (\<lambda>lib. EvCall (func lib) [TStr (name lib)] 0) (EagerModuleSet cfg)
           @ EvFindTable ''_PRELOAD'' (length (LazyModuleSet cfg))
           # map (\<lambda>lib. EvSetField (name lib) (TFunc (func lib))) (LazyModuleSet cfg)
         \<and> (\<exists>g1. spec_install_eager sem (EagerModuleSet cfg) (glob L) = Inr g1
               \<and> globals (glob L') = globals g1))
   \<and> prefix (new_events L (luaL_openlibs sem cfg L))
        (map (\<lambda>lib. EvCall (func lib) [TStr (name lib)] 0) (EagerModuleSet cfg)
         @ EvFindTable ''_PRELOAD'' (length (LazyModuleSet cfg))
         # map (\<lambda>lib. EvSetField (name lib) (TFunc (func lib))) (LazyModuleSet cfg))
   \<and> luaL_openlibs (without_results sem) cfg L = luaL_openlibs sem cfg L"
proof -
  let ?calls = "map (\<lambda>lib. EvCall (func lib) [TStr (name lib)] 0) (EagerModuleSet cfg)"
  have ce: "map call_event xs = map (\<lambda>lib. EvCall (func lib) [TStr (name lib)] 0) xs" for xs
    by (simp add: call_event_def)
  have s: "install_script cfg =
      ?calls @ EvFindTable ''_PRELOAD'' (length (LazyModuleSet cfg))
      # map (\<lambda>lib. EvSetField (name lib) (TFunc (func lib))) (LazyModuleSet cfg)"
    by (simp add: install_script_def call_event_def store_event_def)
  have a: "load_loop sem (lj_lib_load cfg) L = Inr (L\<lparr>glob := g1, api_log := api_log L @ ?calls\<rparr>)
       \<and> (\<exists>rest. new_events L (luaL_openlibs sem cfg L)
             = ?calls @ EvFindTable ''_PRELOAD'' (length (LazyModuleSet cfg)) # rest)
       \<and> (preload_slot_usable g1 \<longrightarrow> (\<exists>L'. luaL_openlibs sem cfg L = Inr L'))"
    if g1: "spec_install_eager sem (EagerModuleSet cfg) (glob L) = Inr g1" for g1
  proof -
    have l1: "load_loop sem (lj_lib_load cfg) L
                = Inr (L\<lparr>glob := g1, api_log := api_log L @ ?calls\<rparr>)"
      using load_loop_success[of sem "lj_lib_load cfg" L g1] g1
      by (simp add: EagerModuleSet_def ce)
    from luaL_openlibs_after_eager[OF l1] obtain rest where
      "api_log (final_state (luaL_openlibs sem cfg L))
         = (api_log L @ ?calls) @ EvFindTable ''_PRELOAD'' (length (LazyModuleSet cfg)) # rest"
      by auto
    then have "new_events L (luaL_openlibs sem cfg L)
         = ?calls @ EvFindTable ''_PRELOAD'' (length (LazyModuleSet cfg)) # rest"
      by (simp add: new_events_def)
    with l1 luaL_openlibs_returns[OF g1] show ?thesis
      by blast
  qed
  have b: "(\<exists>L'. luaL_openlibs sem cfg L = Inl (ModuleInstallFailure obj, L') \<and> glob L' = g2)
       \<and> new_events L (luaL_openlibs sem cfg L)
           = map (\<lambda>lib. EvCall (func lib) [TStr (name lib)] 0)
               (take (eager_calls_made sem (EagerModuleSet cfg) (glob L)) (EagerModuleSet cfg))
       \<and> 0 < eager_calls_made sem (EagerModuleSet cfg) (glob L)"
    if g2: "spec_install_eager sem (EagerModuleSet cfg) (glob L) = Inl (obj, g2)" for obj g2
  proof -
    from luaL_openlibs_eager_failure[OF g2] obtain L' where
      r: "luaL_openlibs sem cfg L = Inl (ModuleInstallFailure obj, L')" "glob L' = g2"
         "api_log L' = api_log L
          @ map call_event
              (take (eager_calls_made sem (EagerModuleSet cfg) (glob L)) (EagerModuleSet cfg))"
      by blast
    then have "new_events L (luaL_openlibs sem cfg L)
           = map (\<lambda>lib. EvCall (func lib) [TStr (name lib)] 0)
               (take (eager_calls_made sem (EagerModuleSet cfg) (glob L)) (EagerModuleSet cfg))"
      by (simp add: new_events_def ce)
    with r(1,2) eager_calls_made_pos[OF g2] show ?thesis
      by blast
  qed
  have c: "api_log L' = api_log L
           @ ?calls @ EvFindTable ''_PRELOAD'' (length (LazyModuleSet cfg))
           # map (\<lambda>lib. EvSetField (name lib) (TFunc (func lib))) (LazyModuleSet cfg)
         \<and> (\<exists>g1. spec_install_eager sem (EagerModuleSet cfg) (glob L) = Inr g1
               \<and> globals (glob L') = globals g1)"
    if r: "luaL_openlibs sem cfg L = Inr L'" for L'
    using luaL_openlibs_Inr[OF r] unfolding s by blast
  have d: "prefix (new_events L (luaL_openlibs sem cfg L))
        (?calls @ EvFindTable ''_PRELOAD'' (length (LazyModuleSet cfg))
         # map (\<lambda>lib. EvSetField (name lib) (TFunc (func lib))) (LazyModuleSet cfg))"
    using new_events_luaL_openlibs(2)[of L sem cfg] unfolding s .
  from a b c d luaL_openlibs_without_results[of sem cfg L] show ?thesis
    by blast
qed

theorem eager_entry_points_called_in_order_witness:
  "\<exists>L'. luaL_openlibs example_sem example_config example_state = Inr L'
     \<and> api_log L' =
         [EvCall luaopen_base [TStr ''''] 0, EvCall luaopen_math [TStr ''math''] 0,
          EvFindTable ''_PRELOAD'' 1, EvSetField ''ffi'' (TFunc luaopen_ffi)]
     \<and> globals (glob L') '''' = Some (TFunc luaopen_base)
     \<and> globals (glob L') ''math'' = Some (TFunc luaopen_math)"
proof -
  let ?g = "\<lparr>globals = [[] \<mapsto> TFunc luaopen_base, ''math'' \<mapsto> TFunc luaopen_math],
            registry = Map.empty, tabs = [], out_of_memory = False\<rparr>"
  note t = eager_entry_points_called_in_order[of example_sem example_config example_state]
  have u: "preload_slot_usable ?g"
    by (simp add: preload_slot_usable_def)
  from t example_spec_eager u obtain L' where
    r: "luaL_openlibs example_sem example_config example_state = Inr L'"
    by blast
  from t r have
    "api_log L' = api_log example_state
           @ map (\<lambda>lib. EvCall (func lib) [TStr (name lib)] 0) (EagerModuleSet example_config)
           @ EvFindTable ''_PRELOAD'' (length (LazyModuleSet example_config))
           # map (\<lambda>lib. EvSetField (name lib) (TFunc (func lib))) (LazyModuleSet example_config)"
    by blast
  then have a: "api_log L' =
         [EvCall luaopen_base [TStr ''''] 0, EvCall luaopen_math [TStr ''math''] 0,
          EvFindTable ''_PRELOAD'' 1, EvSetField ''ffi'' (TFunc luaopen_ffi)]"
    by (simp add: example_eager example_lazy example_state_def)
  from t r obtain g1 where
    "spec_install_eager example_sem (EagerModuleSet example_config) (glob example_state) = Inr g1"
    "globals (glob L') = globals g1"
    by blast
  with example_spec_eager have "globals (glob L') = globals ?g"
    by simp
  with r a show ?thesis by auto
qed

text \<open>
  Claim C9, as stated, fails: when the registry holds under \<open>_PRELOAD\<close> a value that is
  not a table, the look-up pushes nothing, and the pop of line 73 removes a value of the
  caller. Here the run returns with the host's stack one shorter.
\<close>

theorem stack_not_restored_counterexample:
  "luaL_openlibs example_sem example_config_noffi example_state_spoiled =
     Inr \<lparr>stack = [],
          glob = \<lparr>globals = [[] \<mapsto> TFunc luaopen_base, ''math'' \<mapsto> TFunc luaopen_math],
                  registry = [''_PRELOAD'' \<mapsto> TStr ''spoiled''], tabs = [],
                  out_of_memory = False\<rparr>,
          api_log = [EvCall luaopen_base [TStr ''''] 0, EvCall luaopen_math [TStr ''math''] 0,
                     EvFindTable ''_PRELOAD'' 0]\<rparr>
   \<and> length (stack example_state_spoiled) = 1
   \<and> length (stack (final_state
        (luaL_openlibs example_sem example_config_noffi example_state_spoiled))) = 0"
  by (simp add: example_spoiled_run) (simp add: example_state_spoiled_def)

text \<open>
  Claim C9, amended. A run of \<open>luaL_openlibs\<close> that returns leaves the evaluation stack as
  it found it, so at the height it had on entry, provided the registry slot \<open>_PRELOAD\<close>
  holds nil or a table when the eager entry points are done; the stack is already back
  to what it was after the loop over the eager descriptors.
\<close>

theorem stack_restored_when_preload_slot_free_or_table:
  "luaL_openlibs sem cfg L = Inr L' \<Longrightarrow>
   spec_install_eager sem (EagerModuleSet cfg) (glob L) = Inr g1 \<Longrightarrow>
   preload_slot_free_or_table g1 \<Longrightarrow>
     length (stack L') = length (stack L) \<and> stack L' = stack L
     \<and> (\<exists>L1. load_loop sem (lj_lib_load cfg) L = Inr L1 \<and> stack L1 = stack L)"
proof -
  assume r: "luaL_openlibs sem cfg L = Inr L'"
    and g: "spec_install_eager sem (EagerModuleSet cfg) (glob L) = Inr g1"
    and p: "preload_slot_free_or_table g1"
  from r obtain L1 where l1: "load_loop sem (lj_lib_load cfg) L = Inr L1"
    by (auto simp: luaL_openlibs_def split: sum.splits)
  with load_loop_Inr_fields(1)[OF l1] luaL_openlibs_Inr_table(1)[OF r g p] show ?thesis
    by simp
qed

theorem stack_restored_when_preload_slot_free_or_table_witness:
  "\<exists>L'. luaL_openlibs example_sem example_config example_state = Inr L'
     \<and> stack L' = [TStr ''host'']"
proof -
  obtain L' where r: "luaL_openlibs example_sem example_config example_state = Inr L'"
    using example_run by blast
  have p: "preload_slot_free_or_table
     \<lparr>globals = [[] \<mapsto> TFunc luaopen_base, ''math'' \<mapsto> TFunc luaopen_math],
      registry = Map.empty, tabs = [], out_of_memory = False\<rparr>"
    by (simp add: preload_slot_free_or_table_def)
  from stack_restored_when_preload_slot_free_or_table[OF r example_spec_eager p]
  have "stack L' = [TStr ''host'']"
    by (simp add: example_state_def)
  with r show ?thesis by blast
qed




lemma name_descriptor_ffi: "name (descriptor m) = LUA_FFILIBNAME \<Longrightarrow> m = LIB_FFI"
  using name_descriptor_inj[of m LIB_FFI] by simp

lemma func_descriptor_ffi: "func (descriptor m) = luaopen_ffi \<Longrightarrow> m = LIB_FFI"
  using func_descriptor_inj[of m LIB_FFI] by simp

text \<open>
  Claim C3. A module whose switch disables it (for ffi: whose capability flag is off)
  has its name and its entry point in neither the EagerModuleSet nor the LazyModuleSet,
  and no run of \<open>luaL_openlibs\<close> calls its entry point or stores a field under its name.
\<close>

theorem disabled_module_absent:
  "disabled cfg m \<Longrightarrow>
     name (descriptor m) \<notin> name ` set (EagerModuleSet cfg)
     \<and> name (descriptor m) \<notin> name ` set (LazyModuleSet cfg)
     \<and> func (descriptor m) \<notin> func ` set (EagerModuleSet cfg)
     \<and> func (descriptor m) \<notin> func ` set (LazyModuleSet cfg)
     \<and> (\<forall>args n. EvCall (func (descriptor m)) args n
            \<notin> set (new_events L (luaL_openlibs sem cfg L)))
     \<and> (\<forall>v. EvSetField (name (descriptor m)) v
            \<notin> set (new_events L (luaL_openlibs sem cfg L)))"
proof (intro conjI allI)
  assume d: "disabled cfg m"
  show a: "name (descriptor m) \<notin> name ` set (EagerModuleSet cfg)"
    using d by (auto simp: in_EagerModuleSet dest: name_descriptor_inj)
  show b: "name (descriptor m) \<notin> name ` set (LazyModuleSet cfg)"
    using d by (auto simp: in_LazyModuleSet dest: name_descriptor_ffi)
  show c: "func (descriptor m) \<notin> func ` set (EagerModuleSet cfg)"
    using d by (auto simp: in_EagerModuleSet dest: func_descriptor_inj)
  show "func (descriptor m) \<notin> func ` set (LazyModuleSet cfg)"
    using d by (auto simp: in_LazyModuleSet dest: func_descriptor_ffi)
  have sub: "set (new_events L (luaL_openlibs sem cfg L)) \<subseteq> set (install_script cfg)"
    using new_events_luaL_openlibs(2) set_mono_prefix by blast
  show "EvCall (func (descriptor m)) args n \<notin> set (new_events L (luaL_openlibs sem cfg L))"
    for args n
    using c sub by (auto simp: image_iff dest!: subsetD simp: EvCall_in_script)
  show "EvSetField (name (descriptor m)) v \<notin> set (new_events L (luaL_openlibs sem cfg L))"
    for v
    using b sub by (auto simp: image_iff dest!: subsetD simp: EvSetField_in_script)
qed

theorem disabled_module_absent_witness:
  "disabled example_config LIB_IO
   \<and> ''io'' \<notin> name ` set (EagerModuleSet example_config)
   \<and> ''io'' \<notin> name ` set (LazyModuleSet example_config)
   \<and> EvCall luaopen_io [TStr ''io''] 0
        \<notin> set (new_events example_state
                 (luaL_openlibs example_sem example_config example_state))"
proof -
  have d: "disabled example_config LIB_IO"
    by (simp add: example_config_def)
  from disabled_module_absent[OF d, of example_state example_sem] d show ?thesis
    by (simp add: libname_defs)
qed

lemma example_failing_run:
  "luaL_openlibs example_sem_failing example_config example_state =
     Inl (ModuleInstallFailure (TStr ''no memory''),
          \<lparr>stack = [TStr ''math'', TFunc luaopen_math, TStr ''host''],
           glob = \<lparr>globals = [[] \<mapsto> TFunc luaopen_base], registry = Map.empty, tabs = [], out_of_memory = False\<rparr>,
           api_log = [EvCall luaopen_base [TStr ''''] 0, EvCall luaopen_math [TStr ''math''] 0]\<rparr>)"
  by (simp add: api_defs example_config_def example_state_def example_sem_def
        example_sem_failing_def)

text \<open>
  Claim C4. Let the entry points in front of some descriptor of the EagerModuleSet run
  without error, one after the other from the global state of \<open>L\<close>, and let that
  descriptor's entry point raise an error value. Then \<open>luaL_openlibs\<close> raises, with that
  value, at once: its last API event is the failing call, it looks up no PreloadTable and
  stores no field, and the global state is the one the failing entry point left, with
  everything the earlier entry points did to it.
\<close>

theorem eager_failure_propagates_without_rollback:
  "EagerModuleSet cfg = pre @ lib # post \<Longrightarrow>
   spec_install_eager sem pre (glob L) = Inr g1 \<Longrightarrow>
   sem (func lib) [TStr (name lib)] g1 = (Inl obj, g2) \<Longrightarrow>
     \<exists>L'. luaL_openlibs sem cfg L = Inl (ModuleInstallFailure obj, L')
        \<and> glob L' = g2
        \<and> api_log L' = api_log L @ map call_event pre @ [call_event lib]
        \<and> (\<forall>k n. EvFindTable k n \<notin> set (new_events L (luaL_openlibs sem cfg L)))
        \<and> (\<forall>k v. EvSetField k v \<notin> set (new_events L (luaL_openlibs sem cfg L)))"
proof -
  assume a: "EagerModuleSet cfg = pre @ lib # post"
    "spec_install_eager sem pre (glob L) = Inr g1"
    "sem (func lib) [TStr (name lib)] g1 = (Inl obj, g2)"
  let ?L' = "L\<lparr>stack := TStr (name lib) # TFunc (func lib) # stack L, glob := g2,
            api_log := api_log L @ map call_event (pre @ [lib])\<rparr>"
  have r: "luaL_openlibs sem cfg L = Inl (ModuleInstallFailure obj, ?L')"
    by (rule luaL_openlibs_fail[OF a])
  have n: "new_events L (luaL_openlibs sem cfg L) = map call_event (pre @ [lib])"
    by (simp add: r new_events_def)
  have "EvFindTable k n \<notin> set (new_events L (luaL_openlibs sem cfg L))" for k n
    unfolding n by (auto simp: call_event_def)
  moreover have "EvSetField k v \<notin> set (new_events L (luaL_openlibs sem cfg L))" for k v
    unfolding n by (auto simp: call_event_def)
  ultimately show ?thesis
    using r by simp
qed

theorem eager_failure_propagates_without_rollback_witness:
  "\<exists>L'. luaL_openlibs example_sem_failing example_config example_state
            = Inl (ModuleInstallFailure (TStr ''no memory''), L')
     \<and> globals (glob L') '''' = Some (TFunc luaopen_base)
     \<and> registry (glob L') ''_PRELOAD'' = None
     \<and> api_log L' = [EvCall luaopen_base [TStr ''''] 0, EvCall luaopen_math [TStr ''math''] 0]"
proof -
  let ?base = "\<lparr>name = '''', func = luaopen_base\<rparr>"
  let ?math = "\<lparr>name = ''math'', func = luaopen_math\<rparr>"
  let ?g = "\<lparr>globals = [[] \<mapsto> TFunc luaopen_base], registry = Map.empty, tabs = [], out_of_memory = False\<rparr>"
  have e: "EagerModuleSet example_config = [?base] @ ?math # []"
    by (simp add: example_eager)
  have p: "spec_install_eager example_sem_failing [?base] (glob example_state) = Inr ?g"
    by (simp add: example_sem_failing_def example_sem_def example_state_def)
  have f: "example_sem_failing (func ?math) [TStr (name ?math)] ?g = (Inl (TStr ''no memory''), ?g)"
    by (simp add: example_sem_failing_def)
  from eager_failure_propagates_without_rollback[OF e p f] show ?thesis
    by (auto simp: call_event_def example_state_def)
qed

lemma prefix_Cons_nonempty: "prefix evs (x # ys) \<Longrightarrow> evs \<noteq> [] \<Longrightarrow> \<exists>evs'. evs = x # evs'"
  by (cases evs) simp_all

lemma name_descriptor_base: "name (descriptor m) = [] \<Longrightarrow> m = LIB_BASE"
  using name_descriptor_inj[of m LIB_BASE] by simp

text \<open>
  Claim C5. A descriptor with the empty name in the EagerModuleSet is the base
  descriptor, it is the first element and occurs nowhere else, and the first API event
  of every run is the call of \<open>luaopen_base\<close>.
\<close>

theorem base_module_first:
  "lib \<in> set (EagerModuleSet cfg) \<Longrightarrow> name lib = '''' \<Longrightarrow>
     lib = \<lparr>name = '''', func = luaopen_base\<rparr>
     \<and> (\<exists>rest. EagerModuleSet cfg = lib # rest \<and> lib \<notin> set rest)
     \<and> (\<exists>evs. new_events L (luaL_openlibs sem cfg L)
                 = EvCall luaopen_base [TStr ''''] 0 # evs)"
proof -
  assume a: "lib \<in> set (EagerModuleSet cfg)" "name lib = ''''"
  then obtain m where m: "\<not> disabled cfg m" "lib = descriptor m"
    unfolding in_EagerModuleSet by blast
  with a(2) have "m = LIB_BASE" using name_descriptor_base by simp
  with m have en: "\<not> WB_DISABLE_LIB_BASE cfg" and lib: "lib = \<lparr>name = '''', func = luaopen_base\<rparr>"
    by simp_all
  from en obtain rest where rest: "EagerModuleSet cfg = lib # rest"
    unfolding EagerModuleSet_filter eager_modules_def lib by simp
  with distinct_EagerModuleSet[of cfg] have "lib \<notin> set rest" by simp
  moreover from rest have "install_script cfg = EvCall luaopen_base [TStr ''''] 0
      # (map call_event rest @ EvFindTable ''_PRELOAD'' (length (LazyModuleSet cfg))
          # map store_event (LazyModuleSet cfg))"
    by (simp add: install_script_def call_event_def lib)
  with new_events_luaL_openlibs(2,3)[of L sem cfg]
  have "\<exists>evs. new_events L (luaL_openlibs sem cfg L) = EvCall luaopen_base [TStr ''''] 0 # evs"
    using prefix_Cons_nonempty by metis
  ultimately show ?thesis using lib rest by blast
qed

theorem base_module_first_witness:
  "EagerModuleSet example_config ! 0 = \<lparr>name = '''', func = luaopen_base\<rparr>
   \<and> (\<exists>evs. new_events example_state (luaL_openlibs example_sem example_config example_state)
                 = EvCall luaopen_base [TStr ''''] 0 # evs)"
proof -
  let ?base = "\<lparr>name = '''', func = luaopen_base\<rparr>"
  have a: "?base \<in> set (EagerModuleSet example_config)" "name ?base = ''''"
    by (simp_all add: example_eager)
  from base_module_first[OF a, of example_state example_sem] show ?thesis
    by auto
qed

text \<open>
  Claim C6. In every build configuration no name is both the name of a descriptor of
  the EagerModuleSet and the name of one of the LazyModuleSet.
\<close>

theorem eager_and_lazy_names_disjoint:
  "name ` set (EagerModuleSet cfg) \<inter> name ` set (LazyModuleSet cfg) = {}"
proof -
  have "False" if "m \<in> set eager_modules" "name (descriptor m) = LUA_FFILIBNAME" for m
    using that name_descriptor_ffi LIB_FFI_not_eager by blast
  then show ?thesis
    by (auto simp: in_EagerModuleSet in_LazyModuleSet)
qed

theorem eager_and_lazy_names_disjoint_witness:
  "name ` set (EagerModuleSet example_config) = {'''', ''math''}
   \<and> name ` set (LazyModuleSet example_config) = {''ffi''}
   \<and> name ` set (EagerModuleSet example_config)
        \<inter> name ` set (LazyModuleSet example_config) = {}"
  using eager_and_lazy_names_disjoint[of example_config]
  by (simp add: example_eager example_lazy)

text \<open>
  Claim C7. The size hint \<open>luaL_openlibs\<close> computes is the number of descriptors of the
  LazyModuleSet, the closing entry not counted. Every look-up of a registry table a run
  makes is that of \<open>_PRELOAD\<close> with this hint, a run that returns has made it, and when
  the eager entry points left no \<open>_PRELOAD\<close> entry in the registry the table is created
  with this hint.
\<close>

theorem preload_size_hint_is_lazy_count:
  "preload_szhint cfg = length (LazyModuleSet cfg)
   \<and> (\<forall>k n. EvFindTable k n \<in> set (new_events L (luaL_openlibs sem cfg L))
         \<longrightarrow> k = ''_PRELOAD'' \<and> n = length (LazyModuleSet cfg))
   \<and> (\<forall>L'. luaL_openlibs sem cfg L = Inr L'
         \<longrightarrow> EvFindTable ''_PRELOAD'' (length (LazyModuleSet cfg))
               \<in> set (new_events L (luaL_openlibs sem cfg L)))
   \<and> (\<forall>L' g1. luaL_openlibs sem cfg L = Inr L'
           \<and> spec_install_eager sem (EagerModuleSet cfg) (glob L) = Inr g1
           \<and> registry g1 ''_PRELOAD'' = None
         \<longrightarrow> preload_hsize L' = Some (length (LazyModuleSet cfg)))"
proof (intro conjI allI impI)
  show "preload_szhint cfg = length (LazyModuleSet cfg)"
    by (rule preload_szhint_eq)
  have sub: "set (new_events L (luaL_openlibs sem cfg L)) \<subseteq> set (install_script cfg)"
    using new_events_luaL_openlibs(2) set_mono_prefix by blast
  { fix k n
    assume "EvFindTable k n \<in> set (new_events L (luaL_openlibs sem cfg L))"
    with sub have "EvFindTable k n \<in> set (install_script cfg)" by blast
    then show "k = ''_PRELOAD''" and "n = length (LazyModuleSet cfg)"
      unfolding EvFindTable_in_script by simp_all }
  { fix L'
    assume "luaL_openlibs sem cfg L = Inr L'"
    from new_events_success[OF this]
    show "EvFindTable ''_PRELOAD'' (length (LazyModuleSet cfg))
               \<in> set (new_events L (luaL_openlibs sem cfg L))"
      by (simp add: EvFindTable_in_script) }
  { fix L' g1
    assume "luaL_openlibs sem cfg L = Inr L'
           \<and> spec_install_eager sem (EagerModuleSet cfg) (glob L) = Inr g1
           \<and> registry g1 ''_PRELOAD'' = None"
    then show "preload_hsize L' = Some (length (LazyModuleSet cfg))"
      using luaL_openlibs_created_hsize by blast }
qed

theorem preload_size_hint_is_lazy_count_witness:
  "\<exists>L'. luaL_openlibs example_sem example_config example_state = Inr L'
     \<and> EvFindTable ''_PRELOAD'' 1 \<in> set (api_log L')
     \<and> preload_hsize L' = Some 1
     \<and> preload_szhint example_config = 1"
proof -
  let ?g = "\<lparr>globals = [[] \<mapsto> TFunc luaopen_base, ''math'' \<mapsto> TFunc luaopen_math],
             registry = Map.empty, tabs = [], out_of_memory = False\<rparr>"
  obtain L' where r: "luaL_openlibs example_sem example_config example_state = Inr L'"
    using example_run by blast
  have g: "spec_install_eager example_sem (EagerModuleSet example_config) (glob example_state)
             = Inr ?g"
    by (simp add: example_eager example_sem_def example_state_def)
  have n: "new_events example_state (Inr L') = api_log L'"
    by (simp add: new_events_def example_state_def)
  from preload_size_hint_is_lazy_count[of example_config example_state example_sem] r g n
  have "EvFindTable ''_PRELOAD'' 1 \<in> set (api_log L')
     \<and> preload_hsize L' = Some 1
     \<and> preload_szhint example_config = 1"
    by (simp add: example_lazy)
  with r show ?thesis by blast
qed

lemma split_unique:
  assumes "distinct (a @ x # b)" and "a @ x # b = c @ x # d"
  shows "a = c"
proof -
  from assms have d: "distinct (c @ x # d)" by simp
  have "takeWhile (\<lambda>y. y \<noteq> x) (a @ x # b) = a"
    using assms(1) by (subst takeWhile_append2) auto
  moreover have "takeWhile (\<lambda>y. y \<noteq> x) (c @ x # d) = c"
    using d by (subst takeWhile_append2) auto
  ultimately show ?thesis
    using assms(2) by simp
qed

lemma before_package:
  assumes "EagerModuleSet cfg = pre @ descriptor LIB_PACKAGE # post"
  shows "set pre \<subseteq> {descriptor LIB_BASE}"
proof -
  let ?P = "\<lambda>m. \<not> disabled cfg m"
  obtain ms where ms: "eager_modules = LIB_BASE # LIB_PACKAGE # ms"
    by (simp add: eager_modules_def)
  have "descriptor LIB_PACKAGE \<in> set (EagerModuleSet cfg)"
    using assms by simp
  then have en: "?P LIB_PACKAGE"
    unfolding in_EagerModuleSet using descriptor_inj by blast
  define a where "a = (if ?P LIB_BASE then [descriptor LIB_BASE] else [])"
  define b where "b = map descriptor (filter ?P ms)"
  have e: "EagerModuleSet cfg = a @ descriptor LIB_PACKAGE # b"
    unfolding EagerModuleSet_filter ms a_def b_def using en by simp
  from distinct_EagerModuleSet[of cfg] have "distinct (a @ descriptor LIB_PACKAGE # b)"
    unfolding e .
  moreover from assms have "a @ descriptor LIB_PACKAGE # b = pre @ descriptor LIB_PACKAGE # post"
    unfolding e .
  ultimately have "a = pre"
    by (rule split_unique)
  then show ?thesis
    unfolding a_def by (auto split: if_splits)
qed

text \<open>
  Claim C10. The EagerModuleSet is a subsequence of the full order base, package,
  table, io, os, string, math, debug, bit, jit; and when the package descriptor is in
  it, nothing but the base descriptor stands in front of it.
\<close>

theorem eager_set_subsequence_of_full_order:
  "subseq (EagerModuleSet cfg) full_load_order
   \<and> map name full_load_order =
       ['''', ''package'', ''table'', ''io'', ''os'', ''string'', ''math'', ''debug'', ''bit'',
        ''jit'']
   \<and> (\<forall>pre post. EagerModuleSet cfg = pre @ descriptor LIB_PACKAGE # post
         \<longrightarrow> set pre \<subseteq> {descriptor LIB_BASE})"
  using subseq_EagerModuleSet[of cfg] before_package[of cfg]
  by (simp add: full_load_order_def eager_modules_def libname_defs)

theorem eager_set_subsequence_of_full_order_witness:
  "subseq [\<lparr>name = '''', func = luaopen_base\<rparr>, \<lparr>name = ''package'', func = luaopen_package\<rparr>,
           \<lparr>name = ''math'', func = luaopen_math\<rparr>] full_load_order
   \<and> set [\<lparr>name = '''', func = luaopen_base\<rparr>] \<subseteq> {descriptor LIB_BASE}"
proof -
  have e: "EagerModuleSet example_config_package =
      [\<lparr>name = '''', func = luaopen_base\<rparr>] @ descriptor LIB_PACKAGE
        # [\<lparr>name = ''math'', func = luaopen_math\<rparr>]"
    by (simp add: example_eager_package libname_defs)
  from eager_set_subsequence_of_full_order[of example_config_package] e
  have "subseq (EagerModuleSet example_config_package) full_load_order"
    and "set [\<lparr>name = '''', func = luaopen_base\<rparr>] \<subseteq> {descriptor LIB_BASE}"
    by blast+
  then show ?thesis
    by (simp add: example_eager_package)
qed

end
